theory Spec2Isabelle
  imports Main "HOL-Library.Log_Nat"
begin

section \<open>Python values\<close>

text \<open>
  The program \<^verbatim>\<open>switchbot_floor_lamp_rainy.py\<close> handles values decoded from JSON
  (\<^verbatim>\<open>r.json()\<close>) and a few values of its own. They are modelled by one datatype of
  Python values. A Python \<^verbatim>\<open>str\<close> is a \<open>string\<close> whose characters stand for the code
  points below 256; in that range the decimal digits matched by the regular expression
  \<^verbatim>\<open>\d\<close> are exactly \<open>0\<close> to \<open>9\<close>. A \<^verbatim>\<open>dict\<close> is an association list read
  with \<open>map_of\<close>. A finite \<^verbatim>\<open>float\<close> is a pair \<open>(m, e)\<close> standing for
  \<open>m * 2 ^ e\<close>; infinities and NaN do not occur.
\<close>

type_synonym double = "int \<times> int"

datatype pyval =
    VNone
  | VBool bool
  | VInt int
  | VFloat double
  | VStr string
  | VList "pyval list"
  | VDict "(string \<times> pyval) list"

datatype py_error =
    AttributeError
  | KeyError
  | IndexError
  | TypeError
  | ValueError
  | RequestException

text \<open>Truth value testing, as in \<^verbatim>\<open>if x\<close>, \<^verbatim>\<open>not x\<close> and \<^verbatim>\<open>x or y\<close>.\<close>

fun truthy :: "pyval \<Rightarrow> bool" where
  "truthy VNone = False"
| "truthy (VBool b) = b"
| "truthy (VInt n) = (n \<noteq> 0)"
| "truthy (VFloat (m, e)) = (m \<noteq> 0)"
| "truthy (VStr s) = (s \<noteq> [])"
| "truthy (VList xs) = (xs \<noteq> [])"
| "truthy (VDict kvs) = (kvs \<noteq> [])"

text \<open>Sequencing of computations that may raise: the first exception is the result.\<close>

definition bind :: "py_error + 'a \<Rightarrow> ('a \<Rightarrow> py_error + 'b) \<Rightarrow> py_error + 'b" where
  "bind m f = (case m of Inl e \<Rightarrow> Inl e | Inr x \<Rightarrow> f x)"

section \<open>Double precision arithmetic\<close>

text \<open>
  \<^verbatim>\<open>map_rain_to_ct\<close> computes in binary64. Each IEEE operation returns the exact result
  rounded to 53 significant bits, ties to even. \<open>round_quotient n d e\<close> rounds the exact
  value \<open>n / d * 2 ^ e\<close> (with \<open>0 < d\<close>); the magnitudes that occur in the program are far
  from overflow and from the subnormal range, which are not modelled.
\<close>

definition shl :: "int \<Rightarrow> int \<Rightarrow> int" where
  "shl n k = n * 2 ^ nat k"

definition round_quotient :: "int \<Rightarrow> int \<Rightarrow> int \<Rightarrow> double" where
  "round_quotient n d e =
     (if n = 0 then (0, 0)
      else
        (let k = bitlen \<bar>n\<bar> - bitlen d;
             lg = (if shl d k \<le> shl \<bar>n\<bar> (- k) then k else k - 1);
             s = 52 - lg;
             num = shl n s; den = shl d (- s);
             q = num div den; r = num mod den;
             m = (if 2 * r < den then q else if den < 2 * r then q + 1
                  else if even q then q else q + 1)
         in (m, e - s)))"

definition float_of_int :: "int \<Rightarrow> double" where
  "float_of_int n = round_quotient n 1 0"

text \<open>Division by a divisor other than zero (the program divides by \<^verbatim>\<open>100.0\<close> only).\<close>

definition fdiv :: "double \<Rightarrow> double \<Rightarrow> double" where
  "fdiv a b = (case a of (m1, e1) \<Rightarrow> case b of (m2, e2) \<Rightarrow>
     (if m2 < 0 then round_quotient (- m1) (- m2) (e1 - e2)
      else round_quotient m1 m2 (e1 - e2)))"

definition fmul :: "double \<Rightarrow> double \<Rightarrow> double" where
  "fmul a b = (case a of (m1, e1) \<Rightarrow> case b of (m2, e2) \<Rightarrow>
     round_quotient (m1 * m2) 1 (e1 + e2))"

definition fadd :: "double \<Rightarrow> double \<Rightarrow> double" where
  "fadd a b = (case a of (m1, e1) \<Rightarrow> case b of (m2, e2) \<Rightarrow>
     (let e = min e1 e2 in round_quotient (shl m1 (e1 - e) + shl m2 (e2 - e)) 1 e))"

text \<open>\<^verbatim>\<open>int(x)\<close> on a float truncates towards zero.\<close>

definition int_of_float :: "double \<Rightarrow> int" where
  "int_of_float a = (case a of (m, e) \<Rightarrow>
     (if 0 \<le> m then shl m e div shl 1 (- e) else - (shl (- m) e div shl 1 (- e))))"

section \<open>Mapping: rain percentage to RGB and to colour temperature\<close>

definition map_rain_to_rgb :: "int \<Rightarrow> int \<times> int \<times> int" where
  "map_rain_to_rgb rain =
     (if rain = 0 then (255, 127, 0)
      else if rain \<le> 20 then (255, 255, 0)
      else if rain \<le> 40 then (127, 255, 0)
      else if rain \<le> 60 then (0, 255, 255)
      else if rain \<le> 80 then (0, 127, 255)
      else (0, 0, 255))"

text \<open>
  \<^verbatim>\<open>rain = max(0, min(100, int(rain)))\<close>, then
  \<^verbatim>\<open>int(ct_min + (ct_max - ct_min) * (rain / 100.0))\<close>. The argument is an \<^verbatim>\<open>int\<close>, on
  which \<^verbatim>\<open>int()\<close> is the identity.
\<close>

definition map_rain_to_ct :: "int \<Rightarrow> int" where
  "map_rain_to_ct rain0 =
     (let rain = max 0 (min 100 rain0);
          ct_min = 2700; ct_max = 6500
      in int_of_float
           (fadd (float_of_int ct_min)
              (fmul (float_of_int (ct_max - ct_min))
                 (fdiv (float_of_int rain) (float_of_int 100)))))"

section \<open>Operations on Python values\<close>

text \<open>\<^verbatim>\<open>d.get(k, default)\<close>: only a \<^verbatim>\<open>dict\<close> has the method.\<close>

definition py_get :: "pyval \<Rightarrow> string \<Rightarrow> pyval \<Rightarrow> py_error + pyval" where
  "py_get d k dflt =
     (case d of
        VDict kvs \<Rightarrow> Inr (case map_of kvs k of Some v \<Rightarrow> v | None \<Rightarrow> dflt)
      | _ \<Rightarrow> Inl AttributeError)"

text \<open>\<^verbatim>\<open>d[k]\<close> with a string \<open>k\<close>.\<close>

definition py_getitem :: "pyval \<Rightarrow> string \<Rightarrow> py_error + pyval" where
  "py_getitem d k =
     (case d of
        VDict kvs \<Rightarrow> (case map_of kvs k of Some v \<Rightarrow> Inr v | None \<Rightarrow> Inl KeyError)
      | _ \<Rightarrow> Inl TypeError)"

text \<open>\<^verbatim>\<open>x[0]\<close>; the keys of a decoded object are strings, so \<open>0\<close> is never one.\<close>

definition py_getitem0 :: "pyval \<Rightarrow> py_error + pyval" where
  "py_getitem0 x =
     (case x of
        VList [] \<Rightarrow> Inl IndexError
      | VList (v # _) \<Rightarrow> Inr v
      | VStr [] \<Rightarrow> Inl IndexError
      | VStr (c # _) \<Rightarrow> Inr (VStr [c])
      | VDict _ \<Rightarrow> Inl KeyError
      | _ \<Rightarrow> Inl TypeError)"

fun py_substring :: "string \<Rightarrow> string \<Rightarrow> bool" where
  "py_substring k [] = (k = [])"
| "py_substring k (c # cs) = (take (length k) (c # cs) = k \<or> py_substring k cs)"

text \<open>\<^verbatim>\<open>k in x\<close> with a string \<open>k\<close>.\<close>

definition py_contains :: "string \<Rightarrow> pyval \<Rightarrow> py_error + bool" where
  "py_contains k x =
     (case x of
        VDict kvs \<Rightarrow> Inr (map_of kvs k \<noteq> None)
      | VStr s \<Rightarrow> Inr (py_substring k s)
      | VList xs \<Rightarrow> Inr (VStr k \<in> set xs)
      | _ \<Rightarrow> Inl TypeError)"

definition is_dict :: "pyval \<Rightarrow> bool" where
  "is_dict x = (case x of VDict _ \<Rightarrow> True | _ \<Rightarrow> False)"

text \<open>\<^verbatim>\<open>x == n\<close> for an integer \<open>n\<close>: numbers compare by value, \<^verbatim>\<open>True\<close> is 1.\<close>

definition py_eq_int :: "pyval \<Rightarrow> int \<Rightarrow> bool" where
  "py_eq_int x n =
     (case x of
        VInt k \<Rightarrow> k = n
      | VBool b \<Rightarrow> (if b then 1 else 0) = n
      | VFloat (m, e) \<Rightarrow> shl m e = n * shl 1 (- e)
      | _ \<Rightarrow> False)"

section \<open>Strings and integers\<close>

definition is_digit :: "char \<Rightarrow> bool" where
  "is_digit c = (c \<in> set ''0123456789'')"

definition digits_value :: "string \<Rightarrow> int" where
  "digits_value ds = foldl (\<lambda>acc c. 10 * acc + (of_char c - 48)) 0 ds"

text \<open>The characters below 256 for which \<^verbatim>\<open>str.isspace\<close> holds.\<close>

definition py_isspace :: "char \<Rightarrow> bool" where
  "py_isspace c = ((of_char c :: nat) \<in> set [9, 10, 11, 12, 13, 28, 29, 30, 31, 32, 133, 160])"

definition strip :: "string \<Rightarrow> string" where
  "strip s = rev (dropWhile py_isspace (rev (dropWhile py_isspace s)))"

text \<open>
  \<^verbatim>\<open>int(s)\<close> on a string: surrounding whitespace is dropped, a sign may come first, and
  the digits may be grouped by single underscores. The interpreter's limit on the number
  of digits of such a string is not modelled.
\<close>

fun valid_decimal :: "string \<Rightarrow> bool" where
  "valid_decimal [] = False"
| "valid_decimal [c] = is_digit c"
| "valid_decimal (c # d # cs) =
     (is_digit c \<and> (if d = CHR ''_'' then valid_decimal cs else valid_decimal (d # cs)))"

definition py_int_str :: "string \<Rightarrow> py_error + int" where
  "py_int_str s =
     (let t = strip s;
          neg = (t \<noteq> [] \<and> hd t = CHR ''-'');
          ds = (if t \<noteq> [] \<and> (hd t = CHR ''-'' \<or> hd t = CHR ''+'') then tl t else t)
      in if valid_decimal ds
         then Inr ((if neg then - 1 else 1) * digits_value (filter is_digit ds))
         else Inl ValueError)"

definition py_int :: "pyval \<Rightarrow> py_error + int" where
  "py_int x =
     (case x of
        VInt n \<Rightarrow> Inr n
      | VBool b \<Rightarrow> Inr (if b then 1 else 0)
      | VFloat f \<Rightarrow> Inr (int_of_float f)
      | VStr s \<Rightarrow> py_int_str s
      | _ \<Rightarrow> Inl TypeError)"

text \<open>\<^verbatim>\<open>str(n)\<close> on an integer.\<close>

fun str_nat :: "nat \<Rightarrow> string" where
  "str_nat n =
     (if n < 10 then [''0123456789'' ! n]
      else str_nat (n div 10) @ [''0123456789'' ! (n mod 10)])"

declare str_nat.simps [simp del]

definition str_int :: "int \<Rightarrow> string" where
  "str_int n = (if n < 0 then CHR ''-'' # str_nat (nat (- n)) else str_nat (nat n))"

section \<open>Weather helpers\<close>

text \<open>
  \<^verbatim>\<open>_to_int_pct(s)\<close> is \<^verbatim>\<open>int(re.sub(r"\D", "", s or "") or 0)\<close>; \<^verbatim>\<open>re.sub\<close> raises
  \<^verbatim>\<open>TypeError\<close> on a value that is not a string.
\<close>

definition to_int_pct :: "pyval \<Rightarrow> py_error + int" where
  "to_int_pct s =
     (case (if truthy s then s else VStr []) of
        VStr t \<Rightarrow>
          (let digits = filter is_digit t
           in if digits \<noteq> [] then py_int (VStr digits) else py_int (VInt 0))
      | _ \<Rightarrow> Inl TypeError)"

section \<open>Discord helpers\<close>

definition rgb_to_decimal :: "int \<times> int \<times> int \<Rightarrow> int" where
  "rgb_to_decimal rgb = (case rgb of (r, g, b) \<Rightarrow> push_bit 16 r + push_bit 8 g + b)"

text \<open>\<^verbatim>\<open>c if c and c.strip() else None\<close>: only a \<^verbatim>\<open>str\<close> has \<^verbatim>\<open>strip\<close>.\<close>

definition nonblank :: "pyval \<Rightarrow> py_error + string option" where
  "nonblank c =
     (if \<not> truthy c then Inr None
      else (case c of
              VStr s \<Rightarrow> Inr (if strip s \<noteq> [] then Some s else None)
            | _ \<Rightarrow> Inl AttributeError))"

definition format_temperature :: "pyval \<Rightarrow> py_error + string" where
  "format_temperature temp =
     (if \<not> truthy temp then Inr ''--''
      else
        bind (py_contains ''min'' temp) (\<lambda>has_min.
        if \<not> has_min then Inr ''--''
        else
        bind (py_contains ''max'' temp) (\<lambda>has_max.
        if \<not> has_max then Inr ''--''
        else
        bind (py_get temp ''min'' (VDict [])) (\<lambda>min_data.
        bind (py_get temp ''max'' (VDict [])) (\<lambda>max_data.
        bind (if is_dict min_data then py_get min_data ''celsius'' VNone else Inr VNone) (\<lambda>min_c0.
        bind (if is_dict max_data then py_get max_data ''celsius'' VNone else Inr VNone) (\<lambda>max_c0.
        bind (nonblank min_c0) (\<lambda>min_c.
        bind (nonblank max_c0) (\<lambda>max_c.
          (case (min_c, max_c) of
             (Some a, Some b) \<Rightarrow> Inr (a @ ''C / '' @ b @ ''C'')
           | (None, Some b) \<Rightarrow> Inr (''Max '' @ b @ ''C'')
           | (Some a, None) \<Rightarrow> Inr (''Min '' @ a @ ''C'')
           | (None, None) \<Rightarrow> Inr ''--''))))))))))"

text \<open>
  The entries of the embed are values taken from the forecast or formatted strings. A
  formatted string is kept as the list of its pieces: literal text, a code point above
  255 of the literal, or \<^verbatim>\<open>str(v)\<close> of an interpolated value \<open>v\<close>.
\<close>

datatype piece = Lit string | Cp nat | Fmt pyval

datatype evalue = Val pyval | Text "piece list"

record field =
  name :: string
  val :: evalue
  inline :: bool

record embed =
  title :: "piece list"
  url :: evalue
  description :: evalue
  color :: int
  embed_fields :: "field list"
  thumbnail :: "pyval option"
  footer :: "piece list"

text \<open>The dictionary \<^verbatim>\<open>lamp_setting\<close> of \<^verbatim>\<open>main\<close>; \<open>None\<close> is a key that is not set.\<close>

record lamp_setting =
  max_rain :: "int option"
  ct :: "int option"
  rgb :: "(int \<times> int \<times> int) option"

definition or_dashes :: "pyval \<Rightarrow> evalue" where
  "or_dashes t = (if truthy t then Val t else Val (VStr ''--%''))"

text \<open>The result \<open>None\<close> stands for the empty dictionary \<^verbatim>\<open>{}\<close>.\<close>

definition build_discord_embed :: "bool \<Rightarrow> pyval \<Rightarrow> lamp_setting \<Rightarrow> py_error + embed option" where
  "build_discord_embed use_color_temperature weather_data setting =
     (if \<not> truthy weather_data then Inr None
      else
        bind (py_get weather_data ''forecasts'' (VList [VDict []])) (\<lambda>forecasts.
        bind (py_getitem0 forecasts) (\<lambda>forecast.
        bind (py_get weather_data ''location'' (VDict [])) (\<lambda>location.
        bind (py_get forecast ''publishingOffice'' (VStr [])) (\<lambda>publishing_office.
        bind (py_get location ''district'' VNone) (\<lambda>district.
        bind (py_get location ''city'' (VStr [])) (\<lambda>city.
        bind (py_get location ''prefecture'' (VStr [])) (\<lambda>prefecture.
        bind (py_get forecast ''linkUrl'' (VStr [])) (\<lambda>jma_url.
        bind (py_get location ''lat'' (VStr [])) (\<lambda>lat.
        bind (py_get location ''lon'' (VStr [])) (\<lambda>lon.
        bind (py_get forecast ''chanceOfRain'' (VDict [])) (\<lambda>rain.
        bind (py_get rain ''T00_06'' (VStr ''--'')) (\<lambda>t00_06.
        bind (py_get rain ''T06_12'' (VStr ''--'')) (\<lambda>t06_12.
        bind (py_get rain ''T12_18'' (VStr ''--'')) (\<lambda>t12_18.
        bind (py_get rain ''T18_24'' (VStr ''--'')) (\<lambda>t18_24.
        bind (py_get forecast ''telop'' (VStr [])) (\<lambda>telop.
        bind (py_get forecast ''image'' (VDict [])) (\<lambda>image.
        bind (py_get image ''url'' (VStr [])) (\<lambda>icon_url.
        bind (py_get forecast ''temperature'' (VDict [])) (\<lambda>temperature.
        bind (format_temperature temperature) (\<lambda>temp_str.
        bind (py_get forecast ''detail'' (VDict [])) (\<lambda>detail_text.
        bind (if truthy detail_text then py_get detail_text ''weatherDetail'' (VStr [])
              else Inr (VStr [])) (\<lambda>weather_detail.
          (let area = (if truthy district then district else city);
               color = rgb_to_decimal (case rgb setting of Some c \<Rightarrow> c | None \<Rightarrow> (255, 127, 0));
               max_rain = (case max_rain setting of Some n \<Rightarrow> n | None \<Rightarrow> 0);
               lamp_field =
                 (if use_color_temperature
                  then (let ct = (case ct setting of Some k \<Rightarrow> k | None \<Rightarrow> 0)
                        in \<lparr>name = ''Lamp Setting'',
                            val = Text [Lit ''Color Temp: '', Lit (str_int ct), Lit ''K''],
                            inline = True\<rparr>)
                  else (case (case rgb setting of Some c \<Rightarrow> c | None \<Rightarrow> (0, 0, 0)) of
                          (r, g, b) \<Rightarrow>
                            \<lparr>name = ''Lamp Setting'',
                             val = Text [Lit ''RGB('', Lit (str_int r), Lit '','', Lit (str_int g),
                                         Lit '','', Lit (str_int b), Lit '')''],
                             inline = True\<rparr>))
           in Inr (Some
                \<lparr>title = [Cp 0x1F324, Cp 0xFE0F, Lit '' Today's Weather - '',
                           Fmt prefecture, Lit '' '', Fmt city],
                 url = (if truthy jma_url then Val jma_url
                        else Text [Lit ''https://www.jma.go.jp/bosai/map.html#contents=forecast_map&lat='',
                                   Fmt lat, Lit ''&lon='', Fmt lon, Lit ''&zoom=8'']),
                 description = (if truthy area then Text [Fmt telop, Lit '' - '', Fmt area]
                                else Val telop),
                 color = color,
                 embed_fields =
                   [\<lparr>name = ''Precipitation (Max)'',
                     val = Text [Lit (str_int max_rain), Lit ''%''], inline = True\<rparr>,
                    \<lparr>name = ''06-12'', val = or_dashes t06_12, inline = True\<rparr>,
                    \<lparr>name = ''12-18'', val = or_dashes t12_18, inline = True\<rparr>,
                    \<lparr>name = ''18-24'', val = or_dashes t18_24, inline = True\<rparr>,
                    \<lparr>name = ''Temperature'', val = Val (VStr temp_str), inline = True\<rparr>,
                    lamp_field]
                   @ (if truthy detail_text \<and> truthy weather_detail
                      then [\<lparr>name = ''Details'', val = Val weather_detail, inline = False\<rparr>]
                      else []),
                 thumbnail = (if truthy icon_url then Some icon_url else None),
                 footer = [Fmt publishing_office, Lit '' / Tsukumijima Weather API'']\<rparr>)))))))))))))))))))))))))"

section \<open>HTTP requests, the log and the configuration\<close>

text \<open>
  A call of \<^verbatim>\<open>requests.get\<close> or \<^verbatim>\<open>requests.post\<close> either raises a
  \<^verbatim>\<open>RequestException\<close> (timeout, connection error) or returns a response with a status
  code. The body of the response is given by what \<^verbatim>\<open>r.json()\<close> makes of it: \<open>None\<close>
  when it is not JSON, in which case \<^verbatim>\<open>r.json()\<close> raises \<^verbatim>\<open>JSONDecodeError\<close>, a
  \<^verbatim>\<open>RequestException\<close> since requests 2.27.
\<close>

datatype http_outcome =
    RequestFailed
  | Response nat "pyval option"

text \<open>\<^verbatim>\<open>r.raise_for_status()\<close> raises \<^verbatim>\<open>HTTPError\<close> on the status codes 400 to 599.\<close>

definition raise_for_status :: "nat \<Rightarrow> bool" where
  "raise_for_status status = (400 \<le> status \<and> status < 600)"

text \<open>
  The requests of the program: the forecast (URL), a device command (URL and the three
  entries of the JSON body) and the webhook (URL and the list of embeds). The signed
  headers built by \<^verbatim>\<open>generate_sign\<close> are not modelled.
\<close>

datatype request =
    HttpGet string
  | HttpPostCommand string string string string
  | HttpPostEmbeds string "embed list"

datatype level = INFO | WARNING | ERROR

text \<open>
  The state threaded through the program: the requests made so far and the log, each
  entry with its level and the fixed text of its message. The remote services are a
  function from the requests made so far, the last one being the current request, to the
  outcome of that request.
\<close>

record world =
  requested :: "request list"
  logged :: "(level \<times> string) list"

type_synonym services = "request list \<Rightarrow> http_outcome"

definition logger :: "level \<Rightarrow> string \<Rightarrow> world \<Rightarrow> world" where
  "logger lv msg w = w\<lparr>logged := logged w @ [(lv, msg)]\<rparr>"

definition then_do ::
  "world \<times> (py_error + 'a) \<Rightarrow> ('a \<Rightarrow> world \<Rightarrow> world \<times> (py_error + 'b)) \<Rightarrow> world \<times> (py_error + 'b)" where
  "then_do m f = (case m of (w, Inl e) \<Rightarrow> (w, Inl e) | (w, Inr x) \<Rightarrow> f x w)"

record config =
  DEVICE_ID :: string
  CITY_CODE :: string
  USE_COLOR_TEMPERATURE :: bool
  DISCORD_WEBHOOK_URL :: string
  DISCORD_ENABLED :: bool

definition API_BASE_URL :: string where
  "API_BASE_URL = ''https://api.switch-bot.com''"

definition WEATHER_URL :: string where
  "WEATHER_URL = ''https://weather.tsukumijima.net/api/forecast/city''"

section \<open>Forecast\<close>

text \<open>\<^verbatim>\<open>data["forecasts"][0]["chanceOfRain"]\<close>, the entry of today.\<close>

definition chance_of_rain :: "pyval \<Rightarrow> py_error + pyval" where
  "chance_of_rain data =
     bind (py_getitem data ''forecasts'') (\<lambda>forecasts.
     bind (py_getitem0 forecasts) (\<lambda>today.
       py_getitem today ''chanceOfRain''))"

text \<open>The body of the \<^verbatim>\<open>try\<close> block, from the outcome of the request.\<close>

definition fetch_chance_of_rain :: "http_outcome \<Rightarrow> py_error + (pyval \<times> pyval)" where
  "fetch_chance_of_rain outcome =
     (case outcome of
        RequestFailed \<Rightarrow> Inl RequestException
      | Response status body \<Rightarrow>
          if raise_for_status status then Inl RequestException
          else (case body of
                  None \<Rightarrow> Inl RequestException
                | Some data \<Rightarrow> bind (chance_of_rain data) (\<lambda>rain. Inr (data, rain))))"

definition slot :: "pyval \<Rightarrow> string \<Rightarrow> py_error + int" where
  "slot rain k = bind (py_get rain k (VStr [])) to_int_pct"

definition get_today_rain_percent_max_all ::
  "services \<Rightarrow> string \<Rightarrow> world \<Rightarrow> world \<times> (py_error + (int \<times> pyval))" where
  "get_today_rain_percent_max_all env city_code w =
     (let url = WEATHER_URL @ ''/'' @ city_code;
          w1 = w\<lparr>requested := requested w @ [HttpGet url]\<rparr>
      in case fetch_chance_of_rain (env (requested w1)) of
           Inl e \<Rightarrow> (logger ERROR ''Weather API error'' w1, Inr (0, VDict []))
         | Inr (data, rain) \<Rightarrow>
             (case bind (slot rain ''T06_12'') (\<lambda>a.
                   bind (slot rain ''T12_18'') (\<lambda>b.
                   bind (slot rain ''T18_24'') (\<lambda>c.
                     Inr (max (max a b) c)))) of
                Inl e \<Rightarrow> (w1, Inl e)
              | Inr v \<Rightarrow> (logger INFO ''[max_daylight]'' w1, Inr (v, data))))"

section \<open>SwitchBot commands\<close>

text \<open>\<^verbatim>\<open>f"{API_BASE_URL}/v1.1/devices/{device_id}/commands"\<close>\<close>

definition command_url :: "string \<Rightarrow> string" where
  "command_url device_id = API_BASE_URL @ ''/v1.1/devices/'' @ device_id @ ''/commands''"

definition post_command ::
  "services \<Rightarrow> string \<Rightarrow> string \<Rightarrow> string \<Rightarrow> string \<Rightarrow> world \<Rightarrow> world \<times> (py_error + pyval option)" where
  "post_command env device_id command parameter command_type w =
     (let url = command_url device_id;
          w1 = logger INFO ''POST'' w;
          w2 = w1\<lparr>requested := requested w1 @ [HttpPostCommand url command parameter command_type]\<rparr>;
          failed = (logger ERROR ''SwitchBot request error'' w2, Inr None)
      in case env (requested w2) of
           RequestFailed \<Rightarrow> failed
         | Response status body \<Rightarrow>
             if raise_for_status status then failed
             else (case body of
                     None \<Rightarrow> failed
                   | Some payload \<Rightarrow>
                       (case py_get payload ''statusCode'' VNone of
                          Inl e \<Rightarrow> (w2, Inl e)
                        | Inr code \<Rightarrow>
                            if \<not> py_eq_int code 100
                            then (logger ERROR ''SwitchBot error'' w2, Inr (Some payload))
                            else (logger INFO ''SwitchBot OK'' w2, Inr (Some payload)))))"

section \<open>Floor lamp operations\<close>

definition clamp_brightness :: "pyval \<Rightarrow> int" where
  "clamp_brightness brightness =
     (let b = (case py_int brightness of Inr n \<Rightarrow> n | Inl e \<Rightarrow> 100)
      in max 1 (min 100 b))"

text \<open>The colour is a triple of \<^verbatim>\<open>int\<close>, on which \<^verbatim>\<open>int(v)\<close> is the identity.\<close>

definition set_lamp_rgb ::
  "services \<Rightarrow> string \<Rightarrow> int \<times> int \<times> int \<Rightarrow> pyval \<Rightarrow> world \<Rightarrow> world \<times> (py_error + unit)" where
  "set_lamp_rgb env device_id colour brightness0 w =
     (case colour of (r0, g0, b0) \<Rightarrow>
        (let r = max 0 (min 255 r0); g = max 0 (min 255 g0); b = max 0 (min 255 b0);
             brightness = clamp_brightness brightness0
         in then_do (post_command env device_id ''setBrightness'' (str_int brightness) ''command'' w) (\<lambda>_ w1.
            then_do (post_command env device_id ''setColor''
                       (str_int r @ '':'' @ str_int g @ '':'' @ str_int b) ''command'' w1) (\<lambda>_ w2.
            then_do (post_command env device_id ''turnOn'' ''default'' ''command'' w2) (\<lambda>_ w3.
              (w3, Inr ()))))))"

definition set_lamp_ct ::
  "services \<Rightarrow> string \<Rightarrow> int \<Rightarrow> pyval \<Rightarrow> world \<Rightarrow> world \<times> (py_error + unit)" where
  "set_lamp_ct env device_id color_temperature brightness0 w =
     (let ct = max 2700 (min 6500 color_temperature);
          brightness = clamp_brightness brightness0
      in then_do (post_command env device_id ''setBrightness'' (str_int brightness) ''command'' w) (\<lambda>_ w1.
         then_do (post_command env device_id ''setColorTemperature'' (str_int ct) ''command'' w1) (\<lambda>_ w2.
         then_do (post_command env device_id ''turnOn'' ''default'' ''command'' w2) (\<lambda>_ w3.
           (w3, Inr ())))))"

section \<open>Notification\<close>

definition send_discord_notification ::
  "config \<Rightarrow> services \<Rightarrow> pyval \<Rightarrow> lamp_setting \<Rightarrow> world \<Rightarrow> world \<times> (py_error + bool)" where
  "send_discord_notification cfg env weather_data setting w =
     (if \<not> DISCORD_ENABLED cfg
      then (logger INFO ''Discord notification is disabled'' w, Inr True)
      else if DISCORD_WEBHOOK_URL cfg = []
      then (logger WARNING ''DISCORD_WEBHOOK_URL is not set'' w, Inr False)
      else
        (case build_discord_embed (USE_COLOR_TEMPERATURE cfg) weather_data setting of
           Inl e \<Rightarrow> (w, Inl e)
         | Inr None \<Rightarrow> (logger WARNING ''Failed to build Discord embed'' w, Inr False)
         | Inr (Some emb) \<Rightarrow>
             (let w1 = w\<lparr>requested := requested w @ [HttpPostEmbeds (DISCORD_WEBHOOK_URL cfg) [emb]]\<rparr>;
                  failed = (logger WARNING ''Discord notification failed'' w1, Inr False)
              in case env (requested w1) of
                   RequestFailed \<Rightarrow> failed
                 | Response status body \<Rightarrow>
                     if raise_for_status status then failed
                     else (logger INFO ''Discord notification sent successfully'' w1, Inr True))))"

section \<open>Main\<close>

definition main :: "config \<Rightarrow> services \<Rightarrow> world \<Rightarrow> world \<times> (py_error + bool)" where
  "main cfg env w =
     then_do (get_today_rain_percent_max_all env (CITY_CODE cfg) w) (\<lambda>(rain, weather_data) w1.
       (let w2 = logger INFO ''Rain chance used'' w1;
            brightness = VInt 100;
            setting0 = \<lparr>max_rain = Some rain, ct = None, rgb = None\<rparr>;
            setting = (if USE_COLOR_TEMPERATURE cfg
                       then setting0\<lparr>ct := Some (map_rain_to_ct rain)\<rparr>
                       else setting0\<lparr>rgb := Some (map_rain_to_rgb rain)\<rparr>)
        in then_do
             (if USE_COLOR_TEMPERATURE cfg
              then set_lamp_ct env (DEVICE_ID cfg) (map_rain_to_ct rain) brightness
                     (logger INFO ''Set CT'' w2)
              else set_lamp_rgb env (DEVICE_ID cfg) (map_rain_to_rgb rain) brightness
                     (logger INFO ''Set RGB'' w2)) (\<lambda>_ w3.
           then_do (send_discord_notification cfg env weather_data setting w3) (\<lambda>_ w4.
             (w4, Inr True)))))"

section \<open>Notions of the specification\<close>

text \<open>
  \<open>sanitizePercent\<close> in the words of the specification: all characters that are not
  digits are stripped and the remainder is read as an integer, 0 when nothing remains.
\<close>

definition sanitizePercent :: "string \<Rightarrow> int" where
  "sanitizePercent s =
     (let remainder = filter is_digit s
      in if remainder = [] then 0 else digits_value remainder)"

text \<open>
  A nullable Celsius sub-object of a temperature: null, or an object whose
  \<^verbatim>\<open>celsius\<close> entry, if there is one, is null or a string.
\<close>

definition nullable_celsius :: "pyval \<Rightarrow> bool" where
  "nullable_celsius sub =
     (case sub of
        VNone \<Rightarrow> True
      | VDict d \<Rightarrow>
          (case map_of d ''celsius'' of
             None \<Rightarrow> True
           | Some VNone \<Rightarrow> True
           | Some (VStr s) \<Rightarrow> True
           | Some _ \<Rightarrow> False)
      | _ \<Rightarrow> False)"

text \<open>
  The Celsius value that is present in a sub-object, if any: a string that is not blank,
  that is, has a character other than whitespace.
\<close>

definition celsius_present :: "pyval \<Rightarrow> string option" where
  "celsius_present sub =
     (case sub of
        VDict d \<Rightarrow>
          (case map_of d ''celsius'' of
             Some (VStr s) \<Rightarrow> (if strip s = [] then None else Some s)
           | _ \<Rightarrow> None)
      | _ \<Rightarrow> None)"

text \<open>
  The text of a time slot of \<^verbatim>\<open>chanceOfRain\<close>: the empty string when the slot is
  missing or null; no text when the slot holds a value that is not a string.
\<close>

definition slot_text :: "(string \<times> pyval) list \<Rightarrow> string \<Rightarrow> string option" where
  "slot_text rain k =
     (case map_of rain k of
        None \<Rightarrow> Some []
      | Some VNone \<Rightarrow> Some []
      | Some (VStr s) \<Rightarrow> Some s
      | Some _ \<Rightarrow> None)"

text \<open>
  The replies of the device API that \<^verbatim>\<open>post_command\<close> handles: a failed request, an
  error status, a body that is not JSON, or a JSON object. A reply without error status
  whose body is JSON but not an object makes \<^verbatim>\<open>payload.get\<close> raise
  \<^verbatim>\<open>AttributeError\<close>.
\<close>

definition handled_reply :: "http_outcome \<Rightarrow> bool" where
  "handled_reply outcome =
     (case outcome of
        RequestFailed \<Rightarrow> True
      | Response status body \<Rightarrow>
          raise_for_status status \<or> (case body of None \<Rightarrow> True | Some payload \<Rightarrow> is_dict payload))"

text \<open>The requests that are device commands.\<close>

definition is_command :: "request \<Rightarrow> bool" where
  "is_command x = (case x of HttpPostCommand u c p t \<Rightarrow> True | _ \<Rightarrow> False)"

section \<open>Example inputs\<close>

definition weather_example :: "(string \<times> pyval) list" where
  "weather_example =
     [(''forecasts'', VList [VDict [(''chanceOfRain'',
        VDict [(''T00_06'', VStr ''90%''), (''T06_12'', VStr ''20%''),
               (''T12_18'', VStr ''70%''), (''T18_24'', VStr [])])]])]"

definition start :: world where
  "start = \<lparr>requested = [], logged = []\<rparr>"

definition config_example :: config where
  "config_example =
     \<lparr>DEVICE_ID = ''lamp'', CITY_CODE = ''130010'', USE_COLOR_TEMPERATURE = True,
      DISCORD_WEBHOOK_URL = ''https://discord.example/hook'', DISCORD_ENABLED = True\<rparr>"

definition setting_example :: lamp_setting where
  "setting_example = \<lparr>max_rain = Some 70, ct = Some 5360, rgb = None\<rparr>"

text \<open>Services that answer every request with success.\<close>

definition services_example :: services where
  "services_example h =
     (case last h of
        HttpGet u \<Rightarrow> Response 200 (Some (VDict weather_example))
      | HttpPostCommand u c p t \<Rightarrow> Response 200 (Some (VDict [(''statusCode'', VInt 100)]))
      | HttpPostEmbeds u es \<Rightarrow> Response 204 None)"

text \<open>
  Services that fail every device command: the first request fails, the second gets
  status 500, every later one an application-level error.
\<close>

definition services_failing :: services where
  "services_failing h =
     (if length h = 1 then RequestFailed
      else if length h = 2 then Response 500 None
      else Response 200 (Some (VDict [(''statusCode'', VInt 190)])))"

section \<open>Helper lemmas\<close>

lemma bind_Inr [simp]: "bind (Inr x) f = f x"
  by (simp add: bind_def)

lemma bind_Inl [simp]: "bind (Inl e) f = Inl e"
  by (simp add: bind_def)

lemma bind_eq_Inr: "(bind m f = Inr y) = (\<exists>x. m = Inr x \<and> f x = Inr y)"
  by (cases m) simp_all

lemma bind_Inr_drop:
  assumes "bind m f = Inr y"
  obtains x where "f x = Inr y"
  using assms by (auto simp: bind_eq_Inr)

lemma digit_not_space: "is_digit c \<Longrightarrow> \<not> py_isspace c"
  by (auto simp: is_digit_def py_isspace_def)

lemma digit_not_sign: "is_digit c \<Longrightarrow> c \<noteq> CHR ''-'' \<and> c \<noteq> CHR ''+'' \<and> c \<noteq> CHR ''_''"
  by (auto simp: is_digit_def)

lemma strip_Nil [simp]: "strip [] = []"
  by (simp add: strip_def)

lemma strip_digits:
  assumes "\<forall>c \<in> set ds. is_digit c"
  shows "strip ds = ds"
proof -
  have a: "dropWhile py_isspace xs = xs" if "\<forall>c \<in> set xs. is_digit c" for xs
    using that by (cases xs) (auto simp: digit_not_space)
  show ?thesis
    using assms by (simp add: strip_def a)
qed

lemma valid_decimal_digits:
  "ds \<noteq> [] \<Longrightarrow> \<forall>c \<in> set ds. is_digit c \<Longrightarrow> valid_decimal ds"
  by (induction ds rule: valid_decimal.induct) (auto simp: digit_not_sign)

lemma py_int_str_digits:
  assumes "ds \<noteq> []" and "\<forall>c \<in> set ds. is_digit c"
  shows "py_int_str ds = Inr (digits_value ds)"
proof -
  from assms have "is_digit (hd ds)"
    by (cases ds) auto
  then have "hd ds \<noteq> CHR ''-''" and "hd ds \<noteq> CHR ''+''"
    by (auto dest: digit_not_sign)
  moreover have "filter is_digit ds = ds"
    using assms(2) by (simp add: filter_id_conv)
  ultimately show ?thesis
    using assms by (simp add: py_int_str_def strip_digits valid_decimal_digits)
qed

text \<open>The sanitizer of the program is the one of the specification.\<close>

lemma to_int_pct_string: "to_int_pct (VStr s) = Inr (sanitizePercent s)"
proof (cases "filter is_digit s = []")
  case True
  then show ?thesis
    by (cases "s = []") (simp_all add: to_int_pct_def sanitizePercent_def py_int_def)
next
  case False
  then have "s \<noteq> []"
    by auto
  moreover have "py_int_str (filter is_digit s) = Inr (digits_value (filter is_digit s))"
    using False by (intro py_int_str_digits) auto
  ultimately show ?thesis
    using False by (simp add: to_int_pct_def sanitizePercent_def py_int_def)
qed

lemma to_int_pct_none: "to_int_pct VNone = Inr 0"
  by (simp add: to_int_pct_def py_int_def)

lemma sanitizePercent_empty: "sanitizePercent [] = 0"
  by (simp add: sanitizePercent_def)

lemma slot_sanitized:
  "slot_text rain k = Some s \<Longrightarrow> slot (VDict rain) k = Inr (sanitizePercent s)"
  by (auto simp: slot_text_def slot_def py_get_def to_int_pct_string to_int_pct_none
      sanitizePercent_empty split: option.splits pyval.splits)

lemma then_do_Inr: "snd m = Inr x \<Longrightarrow> then_do m f = f x (fst m)"
  by (cases m) (simp add: then_do_def)

lemma then_do_Inl: "snd m = Inl e \<Longrightarrow> then_do m f = (fst m, Inl e)"
  by (cases m) (simp add: then_do_def)

lemma fst_then_do_final:
  "fst (then_do m (\<lambda>_ w. (w, Inr y))) = fst m"
  by (cases m) (auto simp: then_do_def split: sum.splits)

lemma requested_logger [simp]: "requested (logger lv msg w) = requested w"
  by (simp add: logger_def)

lemma logged_logger [simp]: "logged (logger lv msg w) = logged w @ [(lv, msg)]"
  by (simp add: logger_def)

text \<open>Every call of \<open>post_command\<close> makes exactly one request, whatever the reply.\<close>

lemma post_command_requested:
  "requested (fst (post_command env d c p t w))
     = requested w @ [HttpPostCommand (command_url d) c p t]"
  by (simp add: post_command_def Let_def split: http_outcome.splits option.splits sum.splits)

lemma post_command_handled:
  assumes "handled_reply (env (requested w @ [HttpPostCommand (command_url d) c p t]))"
  shows "\<exists>r. snd (post_command env d c p t w) = Inr r"
  using assms
  by (auto simp: post_command_def Let_def handled_reply_def is_dict_def py_get_def
      split: http_outcome.splits option.splits sum.splits pyval.splits)

lemma three_commands:
  assumes "\<forall>h. handled_reply (env h)"
  shows "requested (fst
      (then_do (post_command env d c1 p1 t1 w) (\<lambda>_ w1.
       then_do (post_command env d c2 p2 t2 w1) (\<lambda>_ w2.
       then_do (post_command env d c3 p3 t3 w2) (\<lambda>_ w3. (w3, Inr ()))))))
    = requested w @ [HttpPostCommand (command_url d) c1 p1 t1,
                     HttpPostCommand (command_url d) c2 p2 t2,
                     HttpPostCommand (command_url d) c3 p3 t3]"
proof -
  let ?m1 = "post_command env d c1 p1 t1 w"
  let ?m2 = "post_command env d c2 p2 t2 (fst ?m1)"
  let ?m3 = "post_command env d c3 p3 t3 (fst ?m2)"
  obtain r1 where r1: "snd ?m1 = Inr r1"
    using assms post_command_handled by blast
  obtain r2 where r2: "snd ?m2 = Inr r2"
    using assms post_command_handled by blast
  obtain r3 where r3: "snd ?m3 = Inr r3"
    using assms post_command_handled by blast
  show ?thesis
    by (simp add: then_do_Inr [OF r1] then_do_Inr [OF r2] then_do_Inr [OF r3]
        post_command_requested)
qed

lemma get_today_requested:
  "requested (fst (get_today_rain_percent_max_all env c w))
     = requested w @ [HttpGet (WEATHER_URL @ ''/'' @ c)]"
  by (simp add: get_today_rain_percent_max_all_def Let_def split: sum.splits prod.splits)

lemma then_do_post_new:
  assumes k: "\<And>r w1. x \<in> set (requested (fst (k r w1))) \<Longrightarrow> x \<in> set (requested w1) \<or> is_command x"
    and x: "x \<in> set (requested (fst (then_do (post_command env d c p t w) k)))"
  shows "x \<in> set (requested w) \<or> is_command x"
proof (cases "snd (post_command env d c p t w)")
  case (Inl e)
  with x show ?thesis
    by (auto simp: then_do_Inl post_command_requested is_command_def)
next
  case (Inr r)
  with x have "x \<in> set (requested (fst (k r (fst (post_command env d c p t w)))))"
    by (simp add: then_do_Inr)
  then have "x \<in> set (requested (fst (post_command env d c p t w))) \<or> is_command x"
    by (rule k)
  then show ?thesis
    by (auto simp: post_command_requested is_command_def)
qed

lemma set_lamp_ct_new:
  assumes "x \<in> set (requested (fst (set_lamp_ct env d kelvin b w)))"
  shows "x \<in> set (requested w) \<or> is_command x"
  using assms unfolding set_lamp_ct_def Let_def
  by (elim then_do_post_new [rotated]) simp

lemma send_discord_notification_new:
  assumes "x \<in> set (requested (fst (send_discord_notification cfg env wd setting w)))"
  shows "x \<in> set (requested w)
    \<or> (\<exists>e. x = HttpPostEmbeds (DISCORD_WEBHOOK_URL cfg) [e]
          \<and> build_discord_embed (USE_COLOR_TEMPERATURE cfg) wd setting = Inr (Some e))"
  using assms
  by (auto simp: send_discord_notification_def Let_def
      split: if_splits sum.splits option.splits http_outcome.splits)

lemma nonblank_celsius:
  "nullable_celsius sub \<Longrightarrow>
   bind (if is_dict sub then py_get sub ''celsius'' VNone else Inr VNone) nonblank
     = Inr (celsius_present sub)"
  by (auto simp: nullable_celsius_def celsius_present_def is_dict_def py_get_def nonblank_def
      split: pyval.splits option.splits)

lemma format_temperature_empty: "format_temperature (VDict []) = Inr ''--''"
  by (simp add: format_temperature_def)

lemma build_discord_embed_empty:
  "\<not> truthy weather_data \<Longrightarrow> build_discord_embed use_ct weather_data setting = Inr None"
  unfolding build_discord_embed_def by (rule if_P)

text \<open>The colour of a built embed is that of the setting, orange when none is set.\<close>

lemma build_discord_embed_color:
  assumes "build_discord_embed use_ct weather_data setting = Inr (Some e)"
  shows "color e = rgb_to_decimal (case rgb setting of Some c \<Rightarrow> c | None \<Rightarrow> (255, 127, 0))"
proof (cases "truthy weather_data")
  case False
  with assms show ?thesis
    by (simp add: build_discord_embed_empty)
next
  case True
  with assms show ?thesis
    apply (simp only: build_discord_embed_def not_True_eq_False not_False_eq_True if_False)
    apply (erule bind_Inr_drop)+
    apply (simp only: Let_def sum.inject option.inject)
    apply (drule sym)
    apply (simp only: embed.simps)
    done
qed

lemma build_example:
  "\<exists>e. build_discord_embed True (VDict weather_example) setting = Inr (Some e)"
  by (simp add: build_discord_embed_def weather_example_def py_get_def py_getitem0_def
      format_temperature_empty Let_def)

lemma str_int_100: "str_int 100 = ''100''"
  by (simp add: str_int_def str_nat.simps)

lemma str_int_255: "str_int 255 = ''255''"
  by (simp add: str_int_def str_nat.simps)

lemma str_int_127: "str_int 127 = ''127''"
  by (simp add: str_int_def str_nat.simps)

lemma str_int_0: "str_int 0 = ''0''"
  by (simp add: str_int_def str_nat.simps)

lemma str_int_1: "str_int 1 = ''1''"
  by (simp add: str_int_def str_nat.simps)

lemma str_int_6500: "str_int 6500 = ''6500''"
  by (simp add: str_int_def str_nat.simps)

lemma py_int_bad: "py_int_str ''bad'' = Inl ValueError"
  by code_simp

section \<open>Properties of the colour mapping\<close>

text \<open>
  The interpolation is evaluated in binary64 for each of the 101 clamped inputs; the
  result is the exact value \<open>2700 + 38 * rain\<close> every time.
\<close>

lemma map_rain_to_ct_table_a: "\<forall>r \<in> set [0..25]. map_rain_to_ct r = 2700 + 38 * r"
  by code_simp

lemma map_rain_to_ct_table_b: "\<forall>r \<in> set [26..50]. map_rain_to_ct r = 2700 + 38 * r"
  by code_simp

lemma map_rain_to_ct_table_c: "\<forall>r \<in> set [51..75]. map_rain_to_ct r = 2700 + 38 * r"
  by code_simp

lemma map_rain_to_ct_table_d: "\<forall>r \<in> set [76..100]. map_rain_to_ct r = 2700 + 38 * r"
  by code_simp

lemma map_rain_to_ct_table:
  assumes "0 \<le> r" and "r \<le> 100"
  shows "map_rain_to_ct r = 2700 + 38 * r"
proof -
  have "r \<in> {0..25} \<or> r \<in> {26..50} \<or> r \<in> {51..75} \<or> r \<in> {76..100}"
    using assms by (simp only: atLeastAtMost_iff) presburger
  then have "r \<in> set [0..25] \<or> r \<in> set [26..50] \<or> r \<in> set [51..75] \<or> r \<in> set [76..100]"
    by (simp only: set_upto)
  then show ?thesis
    using map_rain_to_ct_table_a map_rain_to_ct_table_b map_rain_to_ct_table_c
      map_rain_to_ct_table_d by blast
qed

lemma map_rain_to_ct_clamp:
  "map_rain_to_ct rain = map_rain_to_ct (max 0 (min 100 rain))"
  by (simp add: map_rain_to_ct_def)

lemma map_rain_to_ct_closed_form:
  "map_rain_to_ct rain = 2700 + 38 * max 0 (min 100 rain)"
proof -
  have "map_rain_to_ct (max 0 (min 100 rain)) = 2700 + 38 * max 0 (min 100 rain)"
    by (rule map_rain_to_ct_table) simp_all
  with map_rain_to_ct_clamp [of rain] show ?thesis
    by simp
qed

text \<open>
  Claim C2, as stated, gives \<open>5260\<close> for the level 70. The interpolation formula of the
  same claim gives \<open>2700 + 3800 * 70 / 100 = 5360\<close>, and so does the program.
\<close>

theorem map_rain_to_ct_70_counterexample:
  "map_rain_to_ct 70 = 5360 \<and> map_rain_to_ct 70 \<noteq> 5260"
  by (simp add: map_rain_to_ct_closed_form)

text \<open>
  Claim C2, amended: for every integer level, \<open>map_rain_to_ct\<close> clamps the level to
  \<open>[0, 100]\<close> and returns \<open>2700 + (6500 - 2700) * level / 100\<close> (an integer, so that the
  truncation changes nothing); the levels 0, 50, 70 and 100 give 2700, 4600, 5360 and
  6500.
\<close>

theorem map_rain_to_ct_interpolates:
  "map_rain_to_ct level = 2700 + ((6500 - 2700) * max 0 (min 100 level)) div 100
   \<and> map_rain_to_ct 0 = 2700
   \<and> map_rain_to_ct 50 = 4600
   \<and> map_rain_to_ct 70 = 5360
   \<and> map_rain_to_ct 100 = 6500"
  by (simp add: map_rain_to_ct_closed_form)

text \<open>
  Claim C9: \<open>map_rain_to_ct\<close> is monotonically non-decreasing over all integer levels.
\<close>

theorem map_rain_to_ct_mono:
  "a \<le> b \<Longrightarrow> map_rain_to_ct a \<le> map_rain_to_ct b"
  by (simp add: map_rain_to_ct_closed_form)

theorem map_rain_to_ct_mono_witness:
  "(10::int) \<le> 20 \<and> map_rain_to_ct 10 \<le> map_rain_to_ct 20"
  using map_rain_to_ct_mono [of 10 20] by simp

text \<open>
  Claim C4: \<open>map_rain_to_rgb\<close> is a step function of the integer level: 0 gives orange,
  \<open>(0, 20]\<close> yellow, \<open>(20, 40]\<close> lime, \<open>(40, 60]\<close> cyan, \<open>(60, 80]\<close> blue and
  \<open>(80, 100]\<close> deep blue; a boundary belongs to the bucket below it, so that 20 is
  yellow and 21 is lime. As a HOL function it is total and has no effect.
\<close>

theorem map_rain_to_rgb_buckets:
  "map_rain_to_rgb 0 = (255, 127, 0)
   \<and> (0 < a \<and> a \<le> 20 \<longrightarrow> map_rain_to_rgb a = (255, 255, 0))
   \<and> (20 < b \<and> b \<le> 40 \<longrightarrow> map_rain_to_rgb b = (127, 255, 0))
   \<and> (40 < c \<and> c \<le> 60 \<longrightarrow> map_rain_to_rgb c = (0, 255, 255))
   \<and> (60 < d \<and> d \<le> 80 \<longrightarrow> map_rain_to_rgb d = (0, 127, 255))
   \<and> (80 < e \<and> e \<le> 100 \<longrightarrow> map_rain_to_rgb e = (0, 0, 255))
   \<and> map_rain_to_rgb 20 = (255, 255, 0)
   \<and> map_rain_to_rgb 21 = (127, 255, 0)"
  by (simp add: map_rain_to_rgb_def)

theorem map_rain_to_rgb_buckets_witness:
  "(0::int) < 10 \<and> (10::int) \<le> 20 \<and> map_rain_to_rgb 10 = (255, 255, 0)
   \<and> (20::int) < 30 \<and> (30::int) \<le> 40 \<and> map_rain_to_rgb 30 = (127, 255, 0)
   \<and> (40::int) < 50 \<and> (50::int) \<le> 60 \<and> map_rain_to_rgb 50 = (0, 255, 255)
   \<and> (60::int) < 70 \<and> (70::int) \<le> 80 \<and> map_rain_to_rgb 70 = (0, 127, 255)
   \<and> (80::int) < 90 \<and> (90::int) \<le> 100 \<and> map_rain_to_rgb 90 = (0, 0, 255)"
  using map_rain_to_rgb_buckets [of 10 30 50 70 90] by simp

section \<open>Properties of the forecast\<close>

text \<open>
  Claim C3: on a successful fetch (a response without error status whose body holds
  \<^verbatim>\<open>forecasts[0].chanceOfRain\<close> as an object, the three slots being missing, null or
  strings), the first component of the result is the maximum of the sanitized values of
  exactly the slots \<^verbatim>\<open>T06_12\<close>, \<^verbatim>\<open>T12_18\<close> and \<^verbatim>\<open>T18_24\<close>; nothing is assumed of the
  slot \<^verbatim>\<open>T00_06\<close>, which plays no part. Sanitizing strips the characters that are not
  digits and reads the remainder as an integer, 0 when nothing remains:
  \<open>sanitizePercent '''' = 0\<close> and \<open>sanitizePercent ''40%'' = 40\<close>.
\<close>

theorem rain_level_is_max_of_three_slots:
  assumes "env (requested w @ [HttpGet (WEATHER_URL @ ''/'' @ city_code)])
             = Response status (Some (VDict doc))"
    and "\<not> raise_for_status status"
    and "map_of doc ''forecasts'' = Some (VList (VDict today # later))"
    and "map_of today ''chanceOfRain'' = Some (VDict rain)"
    and "slot_text rain ''T06_12'' = Some s1"
    and "slot_text rain ''T12_18'' = Some s2"
    and "slot_text rain ''T18_24'' = Some s3"
  shows "snd (get_today_rain_percent_max_all env city_code w)
           = Inr (Max {sanitizePercent s1, sanitizePercent s2, sanitizePercent s3}, VDict doc)
         \<and> sanitizePercent '''' = 0 \<and> sanitizePercent ''40%'' = 40"
proof -
  have path: "chance_of_rain (VDict doc) = Inr (VDict rain)"
    using assms(3,4) by (simp add: chance_of_rain_def py_getitem_def py_getitem0_def)
  have "fetch_chance_of_rain (Response status (Some (VDict doc))) = Inr (VDict doc, VDict rain)"
    using assms(2) path by (simp add: fetch_chance_of_rain_def)
  moreover have "Max {sanitizePercent s1, sanitizePercent s2, sanitizePercent s3}
      = max (max (sanitizePercent s1) (sanitizePercent s2)) (sanitizePercent s3)"
    by (simp add: max.commute max.left_commute)
  ultimately have "snd (get_today_rain_percent_max_all env city_code w)
      = Inr (Max {sanitizePercent s1, sanitizePercent s2, sanitizePercent s3}, VDict doc)"
    using assms(1) slot_sanitized [OF assms(5)] slot_sanitized [OF assms(6)]
      slot_sanitized [OF assms(7)]
    by (simp add: get_today_rain_percent_max_all_def Let_def)
  moreover have "sanitizePercent '''' = 0" "sanitizePercent ''40%'' = 40"
    by (simp_all add: sanitizePercent_def is_digit_def digits_value_def)
  ultimately show ?thesis
    by simp
qed

theorem rain_level_is_max_of_three_slots_witness:
  "snd (get_today_rain_percent_max_all (\<lambda>h. Response 200 (Some (VDict weather_example)))
          ''130010'' \<lparr>requested = [], logged = []\<rparr>)
     = Inr (70, VDict weather_example)"
proof -
  let ?rain = "[(''T00_06'', VStr ''90%''), (''T06_12'', VStr ''20%''),
               (''T12_18'', VStr ''70%''), (''T18_24'', VStr '''')]"
  have v: "sanitizePercent ''20%'' = 20" "sanitizePercent ''70%'' = 70" "sanitizePercent '''' = 0"
    by (simp_all add: sanitizePercent_def is_digit_def digits_value_def)
  have "snd (get_today_rain_percent_max_all (\<lambda>h. Response 200 (Some (VDict weather_example)))
          ''130010'' \<lparr>requested = [], logged = []\<rparr>)
     = Inr (Max {sanitizePercent ''20%'', sanitizePercent ''70%'', sanitizePercent ''''},
            VDict weather_example)"
    using rain_level_is_max_of_three_slots
      [of "\<lambda>h. Response 200 (Some (VDict weather_example))" "\<lparr>requested = [], logged = []\<rparr>"
          "''130010''" 200 weather_example
          "[(''chanceOfRain'', VDict ?rain)]" "[]" ?rain "''20%''" "''70%''" "''''"]
    by (simp add: weather_example_def raise_for_status_def slot_text_def)
  then show ?thesis
    by (simp add: v)
qed

text \<open>
  Claim C6, as stated, counts every status other than 2xx as a failure. The program asks
  \<^verbatim>\<open>raise_for_status\<close>, which raises on 400 to 599 only: a response with status 300
  and a well-formed body is read as a success.
\<close>

theorem forecast_redirect_counterexample:
  "snd (get_today_rain_percent_max_all (\<lambda>h. Response 300 (Some (VDict weather_example)))
          ''130010'' start)
     = Inr (70, VDict weather_example)"
  by (simp add: get_today_rain_percent_max_all_def Let_def fetch_chance_of_rain_def
      raise_for_status_def chance_of_rain_def py_getitem_def py_getitem0_def weather_example_def
      slot_def py_get_def to_int_pct_string sanitizePercent_def is_digit_def digits_value_def)

text \<open>
  Claim C6, amended: for a network error, a status from 400 to 599, a body that is not
  JSON, or a payload in which \<^verbatim>\<open>forecasts[0].chanceOfRain\<close> cannot be reached (a
  missing key, an empty list, a value of another shape), the result is \<open>(0, {})\<close>, and
  no exception reaches the caller.
\<close>

theorem forecast_failure_absorbed:
  assumes "env (requested w @ [HttpGet (WEATHER_URL @ ''/'' @ city_code)]) = RequestFailed
    \<or> (\<exists>status body.
          env (requested w @ [HttpGet (WEATHER_URL @ ''/'' @ city_code)]) = Response status body
          \<and> ((400 \<le> status \<and> status < 600)
               \<or> body = None
               \<or> (\<exists>data e. body = Some data \<and> chance_of_rain data = Inl e)))"
  shows "snd (get_today_rain_percent_max_all env city_code w) = Inr (0, VDict [])"
proof -
  have "\<exists>e. fetch_chance_of_rain (env (requested w @ [HttpGet (WEATHER_URL @ ''/'' @ city_code)]))
      = Inl e"
    using assms by (auto simp: fetch_chance_of_rain_def raise_for_status_def)
  then show ?thesis
    by (auto simp: get_today_rain_percent_max_all_def Let_def)
qed

theorem forecast_failure_absorbed_witness:
  "snd (get_today_rain_percent_max_all (\<lambda>h. RequestFailed) ''130010'' start) = Inr (0, VDict [])
   \<and> snd (get_today_rain_percent_max_all (\<lambda>h. Response 503 None) ''130010'' start)
       = Inr (0, VDict [])
   \<and> snd (get_today_rain_percent_max_all (\<lambda>h. Response 200 None) ''130010'' start)
       = Inr (0, VDict [])
   \<and> snd (get_today_rain_percent_max_all
            (\<lambda>h. Response 200 (Some (VDict [(''forecasts'', VList [])]))) ''130010'' start)
       = Inr (0, VDict [])"
  using forecast_failure_absorbed [of "\<lambda>h. RequestFailed" start "''130010''"]
    forecast_failure_absorbed [of "\<lambda>h. Response 503 None" start "''130010''"]
    forecast_failure_absorbed [of "\<lambda>h. Response 200 None" start "''130010''"]
    forecast_failure_absorbed
      [of "\<lambda>h. Response 200 (Some (VDict [(''forecasts'', VList [])]))" start "''130010''"]
  by (simp add: chance_of_rain_def py_getitem_def py_getitem0_def)

section \<open>Properties of the device commands\<close>

text \<open>
  Claim C1, as stated, has \<open>post_command\<close> return an empty or null result both for a
  status other than 2xx and for a \<^verbatim>\<open>statusCode\<close> other than 100. With status 200 and
  \<^verbatim>\<open>statusCode\<close> 190 the program returns the payload; with status 300 it does not
  treat the response as a failure at all.
\<close>

theorem post_command_status_counterexample:
  "snd (post_command (\<lambda>h. Response 200 (Some (VDict [(''statusCode'', VInt 190)])))
          ''lamp'' ''turnOn'' ''default'' ''command'' start)
     = Inr (Some (VDict [(''statusCode'', VInt 190)]))
   \<and> snd (post_command (\<lambda>h. Response 300 (Some (VDict [(''statusCode'', VInt 100)])))
          ''lamp'' ''turnOn'' ''default'' ''command'' start)
     = Inr (Some (VDict [(''statusCode'', VInt 100)]))"
  by (simp add: post_command_def Let_def raise_for_status_def py_get_def py_eq_int_def)

text \<open>
  Claim C1, amended: \<open>post_command\<close> reports a network error or a status from 400 to
  599 without raising and returns \<^verbatim>\<open>None\<close>; an object payload whose \<^verbatim>\<open>statusCode\<close>
  is not 100 is reported as an error in the log, again without raising.
\<close>

theorem post_command_reports_failure:
  "(env (requested w @ [HttpPostCommand (command_url device_id) command parameter command_type])
        = RequestFailed
      \<or> (\<exists>body. env (requested w @ [HttpPostCommand (command_url device_id) command parameter command_type])
            = Response status body \<and> 400 \<le> status \<and> status < 600)
    \<longrightarrow> snd (post_command env device_id command parameter command_type w) = Inr None)
   \<and> (env' (requested w' @ [HttpPostCommand (command_url device_id) command parameter command_type])
        = Response status' (Some (VDict payload))
      \<and> \<not> (400 \<le> status' \<and> status' < 600)
      \<and> \<not> py_eq_int (case map_of payload ''statusCode'' of Some v \<Rightarrow> v | None \<Rightarrow> VNone) 100
    \<longrightarrow> (\<exists>r. snd (post_command env' device_id command parameter command_type w') = Inr r)
        \<and> (ERROR, ''SwitchBot error'')
            \<in> set (logged (fst (post_command env' device_id command parameter command_type w'))))"
  by (auto simp: post_command_def Let_def raise_for_status_def py_get_def)

theorem post_command_reports_failure_witness:
  "snd (post_command (\<lambda>h. Response 500 None) ''lamp'' ''turnOn'' ''default'' ''command'' start)
     = Inr None
   \<and> (\<exists>r. snd (post_command (\<lambda>h. Response 200 (Some (VDict [(''statusCode'', VInt 190)])))
          ''lamp'' ''turnOn'' ''default'' ''command'' start) = Inr r)
   \<and> (ERROR, ''SwitchBot error'')
        \<in> set (logged (fst (post_command (\<lambda>h. Response 200 (Some (VDict [(''statusCode'', VInt 190)])))
          ''lamp'' ''turnOn'' ''default'' ''command'' start)))"
  using post_command_reports_failure
    [of "\<lambda>h. Response 500 None" start "''lamp''" "''turnOn''" "''default''" "''command''" 500
        "\<lambda>h. Response 200 (Some (VDict [(''statusCode'', VInt 190)]))" start 200
        "[(''statusCode'', VInt 190)]"]
  by (simp add: py_eq_int_def)

text \<open>
  The commands of the lamp operations, for the replies that \<open>post_command\<close> handles
  (\<open>handled_reply\<close>: a failed request, an error status, a body that is not JSON, an
  object payload with any \<^verbatim>\<open>statusCode\<close>): \<open>set_lamp_rgb\<close> clamps each channel to
  \<open>[0, 255]\<close> and the brightness to \<open>[1, 100]\<close> (100 when \<^verbatim>\<open>int(brightness)\<close>
  raises) and issues \<^verbatim>\<open>setBrightness\<close>, \<^verbatim>\<open>setColor\<close> with \<^verbatim>\<open>R:G:B\<close> in decimal and
  \<^verbatim>\<open>turnOn\<close>, in this order; \<open>set_lamp_ct\<close> issues \<^verbatim>\<open>setBrightness\<close>,
  \<^verbatim>\<open>setColorTemperature\<close> with the temperature clamped to \<open>[2700, 6500]\<close> and
  \<^verbatim>\<open>turnOn\<close>. None of these failures stops the later commands.
\<close>

theorem lamp_commands_in_order:
  assumes "\<forall>h. handled_reply (env h)"
  shows "requested (fst (set_lamp_rgb env device_id (r, g, b) brightness w))
      = requested w @
        [HttpPostCommand (command_url device_id) ''setBrightness''
           (str_int (case py_int brightness of Inr n \<Rightarrow> max 1 (min 100 n) | Inl e \<Rightarrow> 100))
           ''command'',
         HttpPostCommand (command_url device_id) ''setColor''
           (str_int (max 0 (min 255 r)) @ '':'' @ str_int (max 0 (min 255 g)) @ '':''
              @ str_int (max 0 (min 255 b)))
           ''command'',
         HttpPostCommand (command_url device_id) ''turnOn'' ''default'' ''command'']
    \<and> requested (fst (set_lamp_ct env device_id kelvin brightness w))
      = requested w @
        [HttpPostCommand (command_url device_id) ''setBrightness''
           (str_int (case py_int brightness of Inr n \<Rightarrow> max 1 (min 100 n) | Inl e \<Rightarrow> 100))
           ''command'',
         HttpPostCommand (command_url device_id) ''setColorTemperature''
           (str_int (max 2700 (min 6500 kelvin))) ''command'',
         HttpPostCommand (command_url device_id) ''turnOn'' ''default'' ''command'']"
proof -
  have b: "clamp_brightness brightness
      = (case py_int brightness of Inr n \<Rightarrow> max 1 (min 100 n) | Inl e \<Rightarrow> 100)"
    by (simp add: clamp_brightness_def split: sum.splits)
  show ?thesis
    using three_commands [OF assms]
    by (simp add: set_lamp_rgb_def set_lamp_ct_def Let_def b)
qed

theorem lamp_commands_in_order_witness:
  "requested (fst (set_lamp_rgb services_failing ''lamp'' (300, 127, - 5) (VStr ''bad'') start))
     = [HttpPostCommand (command_url ''lamp'') ''setBrightness'' ''100'' ''command'',
        HttpPostCommand (command_url ''lamp'') ''setColor'' ''255:127:0'' ''command'',
        HttpPostCommand (command_url ''lamp'') ''turnOn'' ''default'' ''command'']
   \<and> requested (fst (set_lamp_ct services_failing ''lamp'' 9000 (VInt 0) start))
     = [HttpPostCommand (command_url ''lamp'') ''setBrightness'' ''1'' ''command'',
        HttpPostCommand (command_url ''lamp'') ''setColorTemperature'' ''6500'' ''command'',
        HttpPostCommand (command_url ''lamp'') ''turnOn'' ''default'' ''command'']"
proof -
  have h: "\<forall>h. handled_reply (services_failing h)"
    by (simp add: handled_reply_def services_failing_def raise_for_status_def is_dict_def)
  show ?thesis
    using lamp_commands_in_order [OF h, of "''lamp''" 300 127 "- 5" "VStr ''bad''" start 9000]
      lamp_commands_in_order [OF h, of "''lamp''" 300 127 "- 5" "VInt 0" start 9000]
    by (simp add: py_int_bad py_int_def str_int_100 str_int_255 str_int_127 str_int_0 str_int_1
        str_int_6500 start_def)
qed

text \<open>
  Claim C5 requires that the failure of one command never prevents the later commands of
  the same call. The program breaks this for a reply without error status whose JSON
  body is not an object (here \<^verbatim>\<open>null\<close>): \<^verbatim>\<open>payload.get\<close> raises
  \<^verbatim>\<open>AttributeError\<close>, which \<open>post_command\<close> does not catch, so that only
  \<^verbatim>\<open>setBrightness\<close> is requested and the exception leaves \<open>set_lamp_rgb\<close> and
  \<open>set_lamp_ct\<close>.
\<close>

theorem lamp_commands_abort_on_non_object_reply:
  "requested (fst (set_lamp_rgb (\<lambda>h. Response 200 (Some VNone)) ''lamp'' (255, 127, 0)
                     (VInt 100) start))
     = [HttpPostCommand (command_url ''lamp'') ''setBrightness'' ''100'' ''command'']
   \<and> snd (set_lamp_rgb (\<lambda>h. Response 200 (Some VNone)) ''lamp'' (255, 127, 0)
                     (VInt 100) start)
     = Inl AttributeError
   \<and> requested (fst (set_lamp_ct (\<lambda>h. Response 200 (Some VNone)) ''lamp'' 5360
                     (VInt 100) start))
     = [HttpPostCommand (command_url ''lamp'') ''setBrightness'' ''100'' ''command'']
   \<and> snd (set_lamp_ct (\<lambda>h. Response 200 (Some VNone)) ''lamp'' 5360 (VInt 100) start)
     = Inl AttributeError"
  by (simp add: set_lamp_rgb_def set_lamp_ct_def then_do_def post_command_def Let_def
      raise_for_status_def py_get_def clamp_brightness_def py_int_def str_int_100 start_def
      logger_def)

section \<open>Properties of the notification\<close>

text \<open>
  Claim C8, as stated, counts only null and the empty string as absent. The program also
  drops a value of whitespace alone: with a blank minimum and the maximum 15 the result
  is \<open>Max 15C\<close>, where the claim gives \<open> C / 15C\<close>.
\<close>

theorem format_temperature_blank_counterexample:
  "format_temperature
     (VDict [(''min'', VDict [(''celsius'', VStr '' '')]),
             (''max'', VDict [(''celsius'', VStr ''15'')])]) = Inr ''Max 15C''"
  by (simp add: format_temperature_def py_contains_def py_get_def is_dict_def nonblank_def
      strip_def py_isspace_def)

text \<open>
  Claim C8, amended: for a temperature object with both entries \<^verbatim>\<open>min\<close> and \<^verbatim>\<open>max\<close>,
  each a nullable Celsius sub-object, \<open>format_temperature\<close> returns \<open>{min}C / {max}C\<close>
  when both Celsius values are present, \<open>Max {max}C\<close> when only the maximum is,
  \<open>Min {min}C\<close> when only the minimum is, and \<open>--\<close> otherwise, where a value that is
  null, empty or blank counts as absent; an object without the entry \<^verbatim>\<open>min\<close> or without
  the entry \<^verbatim>\<open>max\<close> gives \<open>--\<close>.
\<close>

theorem format_temperature_range:
  "(map_of kvs ''min'' = Some lo \<and> map_of kvs ''max'' = Some hi
      \<and> nullable_celsius lo \<and> nullable_celsius hi
    \<longrightarrow> format_temperature (VDict kvs)
          = Inr (case (celsius_present lo, celsius_present hi) of
                   (Some a, Some b) \<Rightarrow> a @ ''C / '' @ b @ ''C''
                 | (None, Some b) \<Rightarrow> ''Max '' @ b @ ''C''
                 | (Some a, None) \<Rightarrow> ''Min '' @ a @ ''C''
                 | (None, None) \<Rightarrow> ''--''))
   \<and> (map_of kvs' ''min'' = None \<or> map_of kvs' ''max'' = None
      \<longrightarrow> format_temperature (VDict kvs') = Inr ''--'')"
proof (intro conjI impI)
  assume a: "map_of kvs ''min'' = Some lo \<and> map_of kvs ''max'' = Some hi
      \<and> nullable_celsius lo \<and> nullable_celsius hi"
  then have ne: "kvs \<noteq> []"
    by auto
  have lo: "bind (if is_dict lo then py_get lo ''celsius'' VNone else Inr VNone) nonblank
      = Inr (celsius_present lo)"
    using a by (simp add: nonblank_celsius)
  have hi: "bind (if is_dict hi then py_get hi ''celsius'' VNone else Inr VNone) nonblank
      = Inr (celsius_present hi)"
    using a by (simp add: nonblank_celsius)
  obtain x where x: "(if is_dict lo then py_get lo ''celsius'' VNone else Inr VNone) = Inr x"
      "nonblank x = Inr (celsius_present lo)"
    using lo by (auto simp: bind_eq_Inr)
  obtain y where y: "(if is_dict hi then py_get hi ''celsius'' VNone else Inr VNone) = Inr y"
      "nonblank y = Inr (celsius_present hi)"
    using hi by (auto simp: bind_eq_Inr)
  show "format_temperature (VDict kvs)
          = Inr (case (celsius_present lo, celsius_present hi) of
                   (Some a, Some b) \<Rightarrow> a @ ''C / '' @ b @ ''C''
                 | (None, Some b) \<Rightarrow> ''Max '' @ b @ ''C''
                 | (Some a, None) \<Rightarrow> ''Min '' @ a @ ''C''
                 | (None, None) \<Rightarrow> ''--'')"
    using a ne x y
    by (simp add: format_temperature_def py_contains_def py_get_def split: option.splits)
next
  assume "map_of kvs' ''min'' = None \<or> map_of kvs' ''max'' = None"
  then show "format_temperature (VDict kvs') = Inr ''--''"
    by (auto simp: format_temperature_def py_contains_def)
qed

theorem format_temperature_range_witness:
  "format_temperature
     (VDict [(''min'', VDict [(''celsius'', VStr ''9'')]),
             (''max'', VDict [(''celsius'', VStr ''15'')])]) = Inr ''9C / 15C''
   \<and> format_temperature
     (VDict [(''min'', VDict [(''celsius'', VStr '''')]),
             (''max'', VDict [(''celsius'', VStr ''15'')])]) = Inr ''Max 15C''
   \<and> format_temperature (VDict []) = Inr ''--''"
  using format_temperature_range
      [of "[(''min'', VDict [(''celsius'', VStr ''9'')]), (''max'', VDict [(''celsius'', VStr ''15'')])]"
          "VDict [(''celsius'', VStr ''9'')]" "VDict [(''celsius'', VStr ''15'')]" "[]"]
    format_temperature_range
      [of "[(''min'', VDict [(''celsius'', VStr '''')]), (''max'', VDict [(''celsius'', VStr ''15'')])]"
          "VDict [(''celsius'', VStr '''')]" "VDict [(''celsius'', VStr ''15'')]" "[]"]
  by (simp add: nullable_celsius_def celsius_present_def strip_def py_isspace_def)

text \<open>
  Claim C7, as stated, has every response other than 2xx turned into \<^verbatim>\<open>False\<close>. The
  program asks \<^verbatim>\<open>raise_for_status\<close>, which raises on 400 to 599 only: with status 300
  the result is \<^verbatim>\<open>True\<close>.
\<close>

theorem notification_redirect_counterexample:
  "snd (send_discord_notification config_example (\<lambda>h. Response 300 None)
          (VDict weather_example) setting_example start) = Inr True"
proof -
  obtain e where "build_discord_embed True (VDict weather_example) setting_example = Inr (Some e)"
    using build_example by blast
  then show ?thesis
    by (simp add: send_discord_notification_def Let_def raise_for_status_def config_example_def)
qed

text \<open>
  Claim C7, amended: \<open>send_discord_notification\<close> returns \<^verbatim>\<open>True\<close> at once and makes
  no request when notifications are disabled; when they are enabled it returns
  \<^verbatim>\<open>False\<close> if no webhook URL is configured, \<^verbatim>\<open>False\<close> if the embed is empty, and
  otherwise \<^verbatim>\<open>False\<close> for a network error or a status from 400 to 599, without
  raising, and \<^verbatim>\<open>True\<close> for any other status.
\<close>

theorem notification_outcomes:
  "(\<not> DISCORD_ENABLED cfg1
      \<longrightarrow> snd (send_discord_notification cfg1 env1 wd1 s1 w1) = Inr True
        \<and> requested (fst (send_discord_notification cfg1 env1 wd1 s1 w1)) = requested w1)
   \<and> (DISCORD_ENABLED cfg2 \<and> DISCORD_WEBHOOK_URL cfg2 = []
      \<longrightarrow> snd (send_discord_notification cfg2 env2 wd2 s2 w2) = Inr False)
   \<and> (DISCORD_ENABLED cfg3 \<and> DISCORD_WEBHOOK_URL cfg3 \<noteq> []
        \<and> build_discord_embed (USE_COLOR_TEMPERATURE cfg3) wd3 s3 = Inr None
      \<longrightarrow> snd (send_discord_notification cfg3 env3 wd3 s3 w3) = Inr False)
   \<and> (DISCORD_ENABLED cfg4 \<and> DISCORD_WEBHOOK_URL cfg4 \<noteq> []
        \<and> build_discord_embed (USE_COLOR_TEMPERATURE cfg4) wd4 s4 = Inr (Some e4)
        \<and> (env4 (requested w4 @ [HttpPostEmbeds (DISCORD_WEBHOOK_URL cfg4) [e4]]) = RequestFailed
             \<or> (\<exists>body. env4 (requested w4 @ [HttpPostEmbeds (DISCORD_WEBHOOK_URL cfg4) [e4]])
                     = Response status4 body \<and> 400 \<le> status4 \<and> status4 < 600))
      \<longrightarrow> snd (send_discord_notification cfg4 env4 wd4 s4 w4) = Inr False)
   \<and> (DISCORD_ENABLED cfg5 \<and> DISCORD_WEBHOOK_URL cfg5 \<noteq> []
        \<and> build_discord_embed (USE_COLOR_TEMPERATURE cfg5) wd5 s5 = Inr (Some e5)
        \<and> env5 (requested w5 @ [HttpPostEmbeds (DISCORD_WEBHOOK_URL cfg5) [e5]])
             = Response status5 body5
        \<and> \<not> (400 \<le> status5 \<and> status5 < 600)
      \<longrightarrow> snd (send_discord_notification cfg5 env5 wd5 s5 w5) = Inr True)"
  by (auto simp: send_discord_notification_def Let_def raise_for_status_def)

theorem notification_outcomes_witness:
  "snd (send_discord_notification (config_example\<lparr>DISCORD_ENABLED := False\<rparr>)
          (\<lambda>h. RequestFailed) (VDict weather_example) setting_example start) = Inr True
   \<and> requested (fst (send_discord_notification (config_example\<lparr>DISCORD_ENABLED := False\<rparr>)
          (\<lambda>h. RequestFailed) (VDict weather_example) setting_example start)) = []
   \<and> snd (send_discord_notification (config_example\<lparr>DISCORD_WEBHOOK_URL := []\<rparr>)
          (\<lambda>h. Response 204 None) (VDict weather_example) setting_example start) = Inr False
   \<and> snd (send_discord_notification config_example
          (\<lambda>h. Response 204 None) (VDict []) setting_example start) = Inr False
   \<and> snd (send_discord_notification config_example
          (\<lambda>h. Response 404 None) (VDict weather_example) setting_example start) = Inr False
   \<and> snd (send_discord_notification config_example
          (\<lambda>h. Response 204 None) (VDict weather_example) setting_example start) = Inr True"
proof -
  obtain e where e: "build_discord_embed True (VDict weather_example) setting_example = Inr (Some e)"
    using build_example by blast
  have empty: "build_discord_embed True (VDict []) setting_example = Inr None"
    by (simp add: build_discord_embed_empty)
  show ?thesis
    using e empty
      notification_outcomes
        [where ?cfg1.0 = "config_example\<lparr>DISCORD_ENABLED := False\<rparr>"
           and ?env1.0 = "\<lambda>h. RequestFailed" and ?wd1.0 = "VDict weather_example"
           and ?s1.0 = setting_example and ?w1.0 = start
           and ?cfg2.0 = "config_example\<lparr>DISCORD_WEBHOOK_URL := []\<rparr>"
           and ?env2.0 = "\<lambda>h. Response 204 None" and ?wd2.0 = "VDict weather_example"
           and ?s2.0 = setting_example and ?w2.0 = start
           and ?cfg3.0 = config_example
           and ?env3.0 = "\<lambda>h. Response 204 None" and ?wd3.0 = "VDict []"
           and ?s3.0 = setting_example and ?w3.0 = start
           and ?cfg4.0 = config_example
           and ?env4.0 = "\<lambda>h. Response 404 None" and ?wd4.0 = "VDict weather_example"
           and ?s4.0 = setting_example and ?w4.0 = start and ?e4.0 = e and ?status4.0 = 404
           and ?cfg5.0 = config_example
           and ?env5.0 = "\<lambda>h. Response 204 None" and ?wd5.0 = "VDict weather_example"
           and ?s5.0 = setting_example and ?w5.0 = start and ?e5.0 = e and ?status5.0 = 204
           and ?body5.0 = None]
    by (simp add: config_example_def start_def)
qed

text \<open>
  Claim C10: in colour temperature mode, every embed that \<open>main\<close> posts has the colour
  16744192, the decimal of the orange \<open>(255, 127, 0)\<close>, whatever the forecast and the
  rain level: \<open>main\<close> does not set \<^verbatim>\<open>rgb\<close> in the lamp setting, and
  \<open>build_discord_embed\<close> falls back to orange.
\<close>

theorem color_temperature_mode_embed_color:
  assumes "USE_COLOR_TEMPERATURE cfg"
    and "HttpPostEmbeds u es \<in> set (requested (fst (main cfg env w)))"
    and "HttpPostEmbeds u es \<notin> set (requested w)"
  shows "\<forall>e \<in> set es. color e = 16744192"
proof (cases "snd (get_today_rain_percent_max_all env (CITY_CODE cfg) w)")
  case (Inl err)
  then have "fst (main cfg env w) = fst (get_today_rain_percent_max_all env (CITY_CODE cfg) w)"
    by (simp add: main_def then_do_Inl)
  with assms(2,3) show ?thesis
    by (simp add: get_today_requested)
next
  case (Inr res)
  obtain rain weather_data where res: "res = (rain, weather_data)"
    by (cases res)
  let ?w1 = "fst (get_today_rain_percent_max_all env (CITY_CODE cfg) w)"
  let ?setting = "\<lparr>max_rain = Some rain, ct = Some (map_rain_to_ct rain), rgb = None\<rparr>"
  let ?lamp = "set_lamp_ct env (DEVICE_ID cfg) (map_rain_to_ct rain) (VInt 100)
                 (logger INFO ''Set CT'' (logger INFO ''Rain chance used'' ?w1))"
  have m: "main cfg env w =
      then_do ?lamp (\<lambda>_ w3.
        then_do (send_discord_notification cfg env weather_data ?setting w3) (\<lambda>_ w4.
          (w4, Inr True)))"
    using Inr res assms(1) by (simp add: main_def then_do_Inr Let_def)
  have lamp: "x \<in> set (requested (fst ?lamp)) \<Longrightarrow> x \<in> set (requested w) \<or> is_command x
      \<or> x = HttpGet (WEATHER_URL @ ''/'' @ CITY_CODE cfg)" for x
    by (drule set_lamp_ct_new) (auto simp: get_today_requested)
  show ?thesis
  proof (cases "snd ?lamp")
    case (Inl err)
    then have "fst (main cfg env w) = fst ?lamp"
      by (simp add: m then_do_Inl)
    with assms(2,3) lamp [of "HttpPostEmbeds u es"] show ?thesis
      by (auto simp: is_command_def)
  next
    case (Inr unit)
    then have "fst (main cfg env w)
        = fst (send_discord_notification cfg env weather_data ?setting (fst ?lamp))"
      by (simp add: m then_do_Inr fst_then_do_final)
    with assms(2)
    have "HttpPostEmbeds u es
        \<in> set (requested (fst (send_discord_notification cfg env weather_data ?setting (fst ?lamp))))"
      by simp
    from send_discord_notification_new [OF this]
    have "HttpPostEmbeds u es \<in> set (requested (fst ?lamp))
      \<or> (\<exists>e. HttpPostEmbeds u es = HttpPostEmbeds (DISCORD_WEBHOOK_URL cfg) [e]
            \<and> build_discord_embed (USE_COLOR_TEMPERATURE cfg) weather_data ?setting = Inr (Some e))" .
    with assms(3) lamp [of "HttpPostEmbeds u es"]
    obtain e where "es = [e]"
      and "build_discord_embed (USE_COLOR_TEMPERATURE cfg) weather_data ?setting = Inr (Some e)"
      by (auto simp: is_command_def)
    then show ?thesis
      by (auto dest: build_discord_embed_color simp: rgb_to_decimal_def)
  qed
qed

theorem color_temperature_mode_embed_color_witness:
  "\<exists>e. HttpPostEmbeds ''https://discord.example/hook'' [e]
          \<in> set (requested (fst (main config_example services_example start)))
        \<and> color e = 16744192"
proof -
  obtain e where e: "build_discord_embed True (VDict weather_example)
      \<lparr>max_rain = Some 70, ct = Some (map_rain_to_ct 70), rgb = None\<rparr> = Inr (Some e)"
    using build_example by blast
  have sent: "HttpPostEmbeds ''https://discord.example/hook'' [e]
      \<in> set (requested (fst (main config_example services_example start)))"
    using e
    by (simp add: main_def then_do_def get_today_rain_percent_max_all_def Let_def
        fetch_chance_of_rain_def raise_for_status_def chance_of_rain_def py_getitem_def
        py_getitem0_def weather_example_def slot_def py_get_def to_int_pct_string
        sanitizePercent_def is_digit_def digits_value_def set_lamp_ct_def post_command_def
        py_eq_int_def send_discord_notification_def config_example_def services_example_def
        start_def logger_def)
  moreover have "HttpPostEmbeds ''https://discord.example/hook'' [e] \<notin> set (requested start)"
    by (simp add: start_def)
  moreover have "USE_COLOR_TEMPERATURE config_example"
    by (simp add: config_example_def)
  ultimately have "\<forall>x \<in> set [e]. color x = 16744192"
    by (rule color_temperature_mode_embed_color [rotated])
  with sent show ?thesis
    by auto
qed

end
